theory Spec2Isabelle
  imports Main "HOL-Library.Sublist"
begin

section \<open>switcheroo-control: GPU detection and change notification\<close>

text \<open>
  A shallow embedding of \<^verbatim>\<open>src/switcheroo-control.c\<close>. C strings are
  \<open>string\<close>s (a \<^verbatim>\<open>char *\<close> that may be NULL is a \<open>string option\<close>), a
  \<^verbatim>\<open>GPtrArray\<close> is a list whose \<^verbatim>\<open>len\<close> is \<open>length\<close>, and the udev database
  and the D-Bus connection, which live outside the program, are inputs and outputs of
  the functions that use them. A C string ends at its first NUL byte, so the test
  \<^verbatim>\<open>*s == 0\<close> is the test for the empty string.
\<close>

subsection \<open>The udev device as the program sees it\<close>

text \<open>
  The program reads five things from a \<^verbatim>\<open>GUdevDevice\<close>: its device file, its
  driver, its properties, its sysfs attributes read as booleans, and its parent. The
  boolean of a sysfs attribute is the answer of
  \<^verbatim>\<open>g_udev_device_get_sysfs_attr_as_boolean\<close>; an attribute that is not listed reads
  as false.
\<close>

datatype GUdevDevice = GUdevDevice
  (device_file: "string option")
  (driver: "string option")
  (properties: "(string \<times> string) list")
  (sysfs_attr_booleans: "(string \<times> bool) list")
  (parent_device: "GUdevDevice option")

text \<open>
  The accessors of the library. Called on a NULL device (the parent of a device that has
  none) they return NULL, respectively FALSE, which is what their
  \<^verbatim>\<open>g_return_val_if_fail\<close> guards do.
\<close>

definition g_udev_device_get_parent :: "GUdevDevice \<Rightarrow> GUdevDevice option" where
  "g_udev_device_get_parent d = parent_device d"

definition g_udev_device_get_device_file :: "GUdevDevice \<Rightarrow> string option" where
  "g_udev_device_get_device_file d = device_file d"

definition g_udev_device_get_driver :: "GUdevDevice option \<Rightarrow> string option" where
  "g_udev_device_get_driver dev = (case dev of None \<Rightarrow> None | Some d \<Rightarrow> driver d)"

definition g_udev_device_get_property :: "GUdevDevice option \<Rightarrow> string \<Rightarrow> string option" where
  "g_udev_device_get_property dev key =
     (case dev of None \<Rightarrow> None | Some d \<Rightarrow> map_of (properties d) key)"

definition g_udev_device_get_sysfs_attr_as_boolean :: "GUdevDevice option \<Rightarrow> string \<Rightarrow> bool" where
  "g_udev_device_get_sysfs_attr_as_boolean dev name =
     (case dev of
        None \<Rightarrow> False
      | Some d \<Rightarrow> (case map_of (sysfs_attr_booleans d) name of None \<Rightarrow> False | Some b \<Rightarrow> b))"

text \<open>\<^verbatim>\<open>g_strcmp0 (a, b) == 0\<close>: both NULL, or both strings and equal.\<close>

definition g_strcmp0_is_0 :: "string option \<Rightarrow> string option \<Rightarrow> bool" where
  "g_strcmp0_is_0 a b = (a = b)"

definition g_str_has_prefix :: "string \<Rightarrow> string \<Rightarrow> bool" where
  "g_str_has_prefix str pre = prefix pre str"

subsection \<open>CardData and ControlData\<close>

text \<open>
  \<^verbatim>\<open>env\<close> is the flat array of strings the program builds: key, value, key, value.
  \<^verbatim>\<open>dev\<close> is NULL for the two fake cards. \<^verbatim>\<open>name\<close> is a pointer in the code;
  \<open>name_on_heap\<close> says whether it points to allocated memory (the result of
  \<^verbatim>\<open>g_strdup\<close> or \<^verbatim>\<open>info_cleanup\<close>) or to a string literal, which is what freeing
  the card depends on.
\<close>

record CardData =
  dev :: "GUdevDevice option"
  name :: string
  name_on_heap :: bool
  env :: "string list"
  is_default :: bool

type_synonym GDBusConnection = nat

text \<open>
  The fields of \<^verbatim>\<open>ControlData\<close> the detection and the notification read or write.
  \<^verbatim>\<open>num_gpus\<close> is a \<^verbatim>\<open>guint\<close> that only ever receives the \<^verbatim>\<open>guint\<close> length
  of a \<^verbatim>\<open>GPtrArray\<close>, so no conversion happens and it is a \<open>nat\<close> here. The
  \<^verbatim>\<open>client\<close> field is the handle to the udev database: what a query of the
  \<^verbatim>\<open>drm\<close> subsystem returns at the time of a call is the \<open>devices\<close> argument of
  the functions below.
\<close>

record ControlData =
  connection :: "GDBusConnection option"
  name_id :: nat
  init_done :: bool
  add_fake_cards :: bool
  num_gpus :: nat
  cards :: "CardData list"

subsection \<open>What goes out on the bus\<close>

datatype GVariant =
    GBoolean bool
  | GUint32 nat
  | GString string
  | GStrv "string list"
  | GDict "(string \<times> GVariant) list"
  | GArray "GVariant list"
  | GTuple "GVariant list"

record DBusSignal =
  sig_connection :: GDBusConnection
  sig_destination :: "string option"
  sig_object_path :: string
  sig_interface_name :: string
  sig_signal_name :: string
  sig_parameters :: GVariant

definition CONTROL_PROXY_DBUS_NAME :: string where
  "CONTROL_PROXY_DBUS_NAME = ''net.hadess.SwitcherooControl''"

definition CONTROL_PROXY_DBUS_PATH :: string where
  "CONTROL_PROXY_DBUS_PATH = ''/net/hadess/SwitcherooControl''"

definition CONTROL_PROXY_IFACE_NAME :: string where
  "CONTROL_PROXY_IFACE_NAME = CONTROL_PROXY_DBUS_NAME"

definition build_gpus_variant :: "ControlData \<Rightarrow> GVariant" where
  "build_gpus_variant data =
     GArray (map (\<lambda>card. GDict
        [(''Name'', GString (name card)),
         (''Environment'', GStrv (env card)),
         (''Default'', GBoolean (is_default card))]) (cards data))"

text \<open>
  \<^verbatim>\<open>send_dbus_event\<close> returns the state it was given (it writes no field) and the
  signals it emitted: none when there is no connection, one \<^verbatim>\<open>PropertiesChanged\<close>
  otherwise.
\<close>

definition send_dbus_event :: "ControlData \<Rightarrow> ControlData \<times> DBusSignal list" where
  "send_dbus_event data =
     (case connection data of
        None \<Rightarrow> (data, [])
      | Some conn \<Rightarrow>
          (let props_builder =
                 [(''HasDualGpu'', GBoolean (num_gpus data \<ge> 2)),
                  (''NumGPUs'', GUint32 (num_gpus data)),
                  (''GPUs'', build_gpus_variant data)];
               props_changed =
                 GTuple [GString CONTROL_PROXY_IFACE_NAME, GDict props_builder, GStrv []]
           in (data,
               [\<lparr>sig_connection = conn,
                 sig_destination = None,
                 sig_object_path = CONTROL_PROXY_DBUS_PATH,
                 sig_interface_name = ''org.freedesktop.DBus.Properties'',
                 sig_signal_name = ''PropertiesChanged'',
                 sig_parameters = props_changed\<rparr>])))"

datatype error = AssertionFailed | InvalidFree

text \<open>
  \<^verbatim>\<open>handle_get_property\<close>: the assertion on the connection aborts the process
  (\<open>Inl\<close>); an unknown property name gives NULL (\<open>Inr None\<close>).
\<close>

definition handle_get_property :: "ControlData \<Rightarrow> string \<Rightarrow> error + GVariant option" where
  "handle_get_property data property_name =
     (if connection data = None then Inl AssertionFailed
      else if property_name = ''HasDualGpu'' then Inr (Some (GBoolean (num_gpus data \<ge> 2)))
      else if property_name = ''NumGPUs'' then Inr (Some (GUint32 (num_gpus data)))
      else if property_name = ''GPUs'' then Inr (Some (build_gpus_variant data))
      else Inr None)"

definition bus_acquired_handler :: "GDBusConnection \<Rightarrow> ControlData \<Rightarrow> ControlData" where
  "bus_acquired_handler conn data = data\<lparr>connection := Some conn\<rparr>"

definition name_acquired_handler :: "ControlData \<Rightarrow> ControlData \<times> DBusSignal list" where
  "name_acquired_handler data = (if init_done data then send_dbus_event data else (data, []))"

subsection \<open>Per-device data\<close>

text \<open>
  \<^verbatim>\<open>get_card_env\<close> (its \<^verbatim>\<open>client\<close> argument is unused). The result is NULL when
  the array is empty.
\<close>

definition get_card_env :: "GUdevDevice \<Rightarrow> string list option" where
  "get_card_env d =
     (let parent = g_udev_device_get_parent d;
          array =
            (if g_strcmp0_is_0 (g_udev_device_get_driver parent) (Some ''nvidia'') then
               [''__GLX_VENDOR_LIBRARY_NAME'', ''nvidia'',
                ''__NV_PRIME_RENDER_OFFLOAD'', ''1'',
                ''__VK_LAYER_NV_optimus'', ''NVIDIA_only'']
             else
               (case g_udev_device_get_property (Some d) ''ID_PATH_TAG'' of
                  None \<Rightarrow> []
                | Some id0 \<Rightarrow> [''DRI_PRIME'', id0]))
      in if length array = 0 then None else Some array)"

text \<open>
  The two lookups at the head of \<^verbatim>\<open>get_card_name\<close>: the override property, and
  the hardware database when the override is NULL or the empty string.
\<close>

definition get_card_name_vendor :: "GUdevDevice option \<Rightarrow> string option" where
  "get_card_name_vendor parent =
     (let vendor = g_udev_device_get_property parent ''SWITCHEROO_CONTROL_VENDOR_NAME''
      in if vendor = None \<or> vendor = Some ''''
         then g_udev_device_get_property parent ''ID_VENDOR_FROM_DATABASE''
         else vendor)"

definition get_card_name_product :: "GUdevDevice option \<Rightarrow> string option" where
  "get_card_name_product parent =
     (let product = g_udev_device_get_property parent ''SWITCHEROO_CONTROL_PRODUCT_NAME''
      in if product = None \<or> product = Some ''''
         then g_udev_device_get_property parent ''ID_MODEL_FROM_DATABASE''
         else product)"

text \<open>
  \<^verbatim>\<open>get_card_name\<close>. \<^verbatim>\<open>info_cleanup\<close> is declared in \<^verbatim>\<open>info-cleanup.h\<close> and
  is a parameter here.
\<close>

definition get_card_name :: "(string \<Rightarrow> string) \<Rightarrow> GUdevDevice \<Rightarrow> string" where
  "get_card_name info_cleanup d =
     (let parent = g_udev_device_get_parent d;
          vendor = get_card_name_vendor parent;
          product = get_card_name_product parent
      in if vendor = None \<and> product = None then ''Unknown Graphics Controller''
         else if vendor = None then the product
         else if product = None then the vendor
         else info_cleanup (the vendor @ '' '' @ the product))"

definition get_card_is_default :: "GUdevDevice \<Rightarrow> bool" where
  "get_card_is_default d =
     g_udev_device_get_sysfs_attr_as_boolean (g_udev_device_get_parent d) ''boot_vga''"

definition get_card_data :: "(string \<Rightarrow> string) \<Rightarrow> GUdevDevice \<Rightarrow> CardData option" where
  "get_card_data info_cleanup d =
     (case get_card_env d of
        None \<Rightarrow> None
      | Some e \<Rightarrow>
          Some \<lparr>dev = Some d,
                name = get_card_name info_cleanup d,
                name_on_heap = True,
                env = e,
                is_default = get_card_is_default d\<rparr>)"

subsection \<open>The fake cards\<close>

definition g_ptr_array_add :: "'a list \<Rightarrow> 'a \<Rightarrow> 'a list" where
  "g_ptr_array_add array x = array @ [x]"

text \<open>
  The names of the fake cards are string literals. The name of the first one has its
  quotation marks in UTF-8, three bytes each.
\<close>

definition fake_intel_card :: CardData where
  "fake_intel_card =
     \<lparr>dev = None,
      name = ''Intel i740 '' @ [CHR 0xE2, CHR 0x80, CHR 0x9C] @ ''Auburn''
               @ [CHR 0xE2, CHR 0x80, CHR 0x9D],
      name_on_heap = False,
      env = [''INTEL_AGP_OFFLOADING'', ''1'', ''INTEL_PCI_MODE'', ''false''],
      is_default = False\<rparr>"

definition fake_trident_card :: CardData where
  "fake_trident_card =
     \<lparr>dev = None,
      name = ''Trident Vesa Local Bus 512KB'',
      name_on_heap = False,
      env = [''TRIDENT_OFFLOADING'', ''1''],
      is_default = False\<rparr>"

definition add_fake_intel_card :: "CardData list \<Rightarrow> CardData list" where
  "add_fake_intel_card cs = g_ptr_array_add cs fake_intel_card"

definition add_fake_trident_card :: "CardData list \<Rightarrow> CardData list" where
  "add_fake_trident_card cs = g_ptr_array_add cs fake_trident_card"

subsection \<open>Enumeration\<close>

text \<open>The body of the loop of \<^verbatim>\<open>get_drm_cards\<close> over the devices of the query.\<close>

fun get_drm_cards_loop ::
  "(string \<Rightarrow> string) \<Rightarrow> GUdevDevice list \<Rightarrow> CardData list \<Rightarrow> CardData list" where
  "get_drm_cards_loop info_cleanup [] cs = cs"
| "get_drm_cards_loop info_cleanup (d # l) cs =
     get_drm_cards_loop info_cleanup l
       (case g_udev_device_get_device_file d of
          None \<Rightarrow> cs
        | Some path \<Rightarrow>
            if g_str_has_prefix path ''/dev/dri/render'' then
              (case get_card_data info_cleanup d of
                 None \<Rightarrow> cs
               | Some card0 \<Rightarrow> g_ptr_array_add cs card0)
            else cs)"

definition get_drm_cards ::
  "(string \<Rightarrow> string) \<Rightarrow> ControlData \<Rightarrow> GUdevDevice list \<Rightarrow> CardData list" where
  "get_drm_cards info_cleanup data devices =
     (let cs0 = (if add_fake_cards data then add_fake_intel_card [] else []);
          cs1 = get_drm_cards_loop info_cleanup devices cs0;
          cs2 = (if add_fake_cards data then add_fake_trident_card cs1 else cs1)
      in if length cs2 = 1 then cs2[0 := (cs2 ! 0)\<lparr>is_default := True\<rparr>] else cs2)"

subsection \<open>Freeing a card array\<close>

text \<open>
  \<^verbatim>\<open>free_card_data\<close> is the element destructor of the card arrays (they are made by
  \<^verbatim>\<open>g_ptr_array_new_with_free_func\<close>). \<^verbatim>\<open>g_object_unref\<close> on the NULL device of a
  fake card only logs a warning. \<^verbatim>\<open>g_free\<close> of a name that is a string literal frees
  memory the allocator never gave out: the behaviour is undefined, and the model takes
  it as the end of the process.
\<close>

definition free_card_data :: "CardData \<Rightarrow> error + unit" where
  "free_card_data c = (if name_on_heap c then Inr () else Inl InvalidFree)"

text \<open>\<^verbatim>\<open>g_ptr_array_free (array, TRUE)\<close> calls the destructor on every element in turn.\<close>

fun g_ptr_array_free :: "CardData list \<Rightarrow> error + unit" where
  "g_ptr_array_free [] = Inr ()"
| "g_ptr_array_free (c # cs) =
     (case free_card_data c of Inl e \<Rightarrow> Inl e | Inr u \<Rightarrow> g_ptr_array_free cs)"

subsection \<open>Hotplug and start-up\<close>

text \<open>
  \<^verbatim>\<open>uevent_cb\<close> returns the new state, or the error that ended the process, and the
  signals that went out on the bus. It frees the old array before it stores the new
  one, and the new array when the counts are equal; both happen before anything is
  sent.
\<close>

definition uevent_cb ::
  "(string \<Rightarrow> string) \<Rightarrow> GUdevDevice list \<Rightarrow> ControlData \<Rightarrow>
     (error + ControlData) \<times> DBusSignal list" where
  "uevent_cb info_cleanup devices data =
     (let cs = get_drm_cards info_cleanup data devices;
          n = length cs
      in if n \<noteq> num_gpus data
         then (case g_ptr_array_free (cards data) of
                 Inl e \<Rightarrow> (Inl e, [])
               | Inr u \<Rightarrow>
                   (case send_dbus_event (data\<lparr>cards := cs, num_gpus := length cs\<rparr>) of
                      (data', signals) \<Rightarrow> (Inr data', signals)))
         else (case g_ptr_array_free cs of
                 Inl e \<Rightarrow> (Inl e, [])
               | Inr u \<Rightarrow> (Inr data, [])))"

definition get_num_gpus ::
  "(string \<Rightarrow> string) \<Rightarrow> GUdevDevice list \<Rightarrow> ControlData \<Rightarrow> ControlData" where
  "get_num_gpus info_cleanup devices data =
     (let cs = get_drm_cards info_cleanup data devices
      in data\<lparr>cards := cs, num_gpus := length cs\<rparr>)"

text \<open>
  \<^verbatim>\<open>main\<close> allocates the state with \<^verbatim>\<open>g_new0\<close> (every field zero) and stores the
  \<^verbatim>\<open>--fake\<close> option in it.
\<close>

definition initial_data :: "bool \<Rightarrow> ControlData" where
  "initial_data fake =
     \<lparr>connection = None, name_id = 0, init_done = False, add_fake_cards = fake,
      num_gpus = 0, cards = []\<rparr>"

text \<open>
  The states of a run: \<^verbatim>\<open>main\<close> enumerates once, asks for the bus name (the id of
  the request is \<open>n\<close>) and sets \<^verbatim>\<open>init_done\<close>; then the main loop dispatches the
  callbacks in whatever order the events arrive. A hotplug event that ends the process
  has no next state.
\<close>

inductive reachable :: "(string \<Rightarrow> string) \<Rightarrow> ControlData \<Rightarrow> bool"
  for info_cleanup :: "string \<Rightarrow> string" where
  start:
    "reachable info_cleanup
       ((get_num_gpus info_cleanup devices (initial_data fake))\<lparr>name_id := n, init_done := True\<rparr>)"
| bus_acquired:
    "reachable info_cleanup data \<Longrightarrow> reachable info_cleanup (bus_acquired_handler conn data)"
| name_acquired:
    "reachable info_cleanup data \<Longrightarrow> reachable info_cleanup (fst (name_acquired_handler data))"
| uevent:
    "reachable info_cleanup data \<Longrightarrow>
     fst (uevent_cb info_cleanup devices data) = Inr data' \<Longrightarrow>
     reachable info_cleanup data'"

subsection \<open>Vocabulary of the specification\<close>

text \<open>The render-node test of the loop of \<^verbatim>\<open>get_drm_cards\<close>, as a predicate.\<close>

definition is_render_node :: "GUdevDevice \<Rightarrow> bool" where
  "is_render_node d =
     (case g_udev_device_get_device_file d of
        None \<Rightarrow> False
      | Some path \<Rightarrow> g_str_has_prefix path ''/dev/dri/render'')"

text \<open>
  A device is retained when it is a render node and its environment is not empty
  (\<^verbatim>\<open>get_card_env\<close> returns NULL for an empty one).
\<close>

definition retained :: "GUdevDevice \<Rightarrow> bool" where
  "retained d = (is_render_node d \<and> get_card_env d \<noteq> None)"

text \<open>The cards of the real devices, in the order of the query.\<close>

definition real_cards :: "(string \<Rightarrow> string) \<Rightarrow> GUdevDevice list \<Rightarrow> CardData list" where
  "real_cards info_cleanup devices =
     List.map_filter (get_card_data info_cleanup) (filter is_render_node devices)"

text \<open>The flat environment array read as key/value pairs.\<close>

fun env_pairs :: "string list \<Rightarrow> (string \<times> string) list" where
  "env_pairs (k # v # rest) = (k, v) # env_pairs rest"
| "env_pairs _ = []"

text \<open>The boot-VGA attribute behind a card; a fake card has no device and so none.\<close>

definition card_boot_vga :: "CardData \<Rightarrow> bool" where
  "card_boot_vga c = (case dev c of None \<Rightarrow> False | Some d \<Rightarrow> get_card_is_default d)"

subsection \<open>Example devices\<close>

text \<open>
  An integrated Intel GPU that is not the boot display, with its render node and its
  display-control node; an NVIDIA GPU on the proprietary driver; a render node without
  a path tag; a GPU whose database vendor is the empty string; a GPU whose override
  vendor and product are the empty string; and a GPU whose database vendor and product
  are the empty string.
\<close>

definition intel_pci :: GUdevDevice where
  "intel_pci = GUdevDevice None (Some ''i915'')
     [(''ID_VENDOR_FROM_DATABASE'', ''Intel Corporation''),
      (''ID_MODEL_FROM_DATABASE'', ''UHD Graphics 620'')]
     [(''boot_vga'', False)] None"

definition intel_render :: GUdevDevice where
  "intel_render = GUdevDevice (Some ''/dev/dri/renderD128'') None
     [(''ID_PATH_TAG'', ''pci-0000_00_02_0'')] [] (Some intel_pci)"

definition intel_control :: GUdevDevice where
  "intel_control = GUdevDevice (Some ''/dev/dri/card0'') None
     [(''ID_PATH_TAG'', ''pci-0000_00_02_0'')] [] (Some intel_pci)"

definition nvidia_pci :: GUdevDevice where
  "nvidia_pci = GUdevDevice None (Some ''nvidia'')
     [(''ID_VENDOR_FROM_DATABASE'', ''NVIDIA Corporation''),
      (''ID_MODEL_FROM_DATABASE'', ''GA104M'')]
     [(''boot_vga'', True)] None"

definition nvidia_render :: GUdevDevice where
  "nvidia_render = GUdevDevice (Some ''/dev/dri/renderD129'') None
     [(''ID_PATH_TAG'', ''pci-0000_01_00_0'')] [] (Some nvidia_pci)"

definition untagged_render :: GUdevDevice where
  "untagged_render = GUdevDevice (Some ''/dev/dri/renderD130'') None [] []
     (Some (GUdevDevice None (Some ''vgem'') [] [] None))"

definition blank_vendor_render :: GUdevDevice where
  "blank_vendor_render = GUdevDevice (Some ''/dev/dri/renderD128'') None
     [(''ID_PATH_TAG'', ''pci-0000_00_02_0'')] []
     (Some (GUdevDevice None (Some ''i915'') [(''ID_VENDOR_FROM_DATABASE'', '''')]
        [(''boot_vga'', True)] None))"

definition blank_override_render :: GUdevDevice where
  "blank_override_render = GUdevDevice (Some ''/dev/dri/renderD128'') None
     [(''ID_PATH_TAG'', ''pci-0000_00_02_0'')] []
     (Some (GUdevDevice None (Some ''i915'')
        [(''SWITCHEROO_CONTROL_VENDOR_NAME'', ''''),
         (''SWITCHEROO_CONTROL_PRODUCT_NAME'', ''''),
         (''ID_VENDOR_FROM_DATABASE'', ''Intel Corporation''),
         (''ID_MODEL_FROM_DATABASE'', ''UHD Graphics 620'')]
        [(''boot_vga'', False)] None))"

definition blank_database_render :: GUdevDevice where
  "blank_database_render = GUdevDevice (Some ''/dev/dri/renderD128'') None
     [(''ID_PATH_TAG'', ''pci-0000_00_02_0'')] []
     (Some (GUdevDevice None (Some ''i915'')
        [(''ID_VENDOR_FROM_DATABASE'', ''''), (''ID_MODEL_FROM_DATABASE'', '''')]
        [(''boot_vga'', True)] None))"

text \<open>The unfolding rules that evaluate the model on a concrete input.\<close>

lemmas model_defs =
  g_udev_device_get_parent_def g_udev_device_get_device_file_def g_udev_device_get_driver_def
  g_udev_device_get_property_def g_udev_device_get_sysfs_attr_as_boolean_def
  g_strcmp0_is_0_def g_str_has_prefix_def g_ptr_array_add_def
  get_card_env_def get_card_name_vendor_def get_card_name_product_def get_card_name_def
  get_card_is_default_def get_card_data_def
  fake_intel_card_def fake_trident_card_def add_fake_intel_card_def add_fake_trident_card_def
  free_card_data_def get_drm_cards_def uevent_cb_def get_num_gpus_def send_dbus_event_def
  bus_acquired_handler_def name_acquired_handler_def handle_get_property_def
  initial_data_def is_render_node_def retained_def real_cards_def card_boot_vga_def

lemmas example_defs =
  intel_pci_def intel_render_def intel_control_def nvidia_pci_def nvidia_render_def
  untagged_render_def blank_vendor_render_def blank_override_render_def
  blank_database_render_def

subsection \<open>The loop and the shape of an enumeration\<close>

lemma get_drm_cards_loop_eq:
  "get_drm_cards_loop cl l cs = cs @ real_cards cl l"
proof (induction l arbitrary: cs)
  case Nil
  then show ?case by (simp add: real_cards_def)
next
  case (Cons d l)
  show ?case
    by (simp add: Cons.IH is_render_node_def g_ptr_array_add_def real_cards_def
        split: option.splits)
qed

lemma length_map_filter:
  "length (List.map_filter f xs) = length (filter (\<lambda>x. f x \<noteq> None) xs)"
  by (induction xs) (auto split: option.splits)

lemma get_card_data_None_iff: "get_card_data cl d = None \<longleftrightarrow> get_card_env d = None"
  by (simp add: get_card_data_def split: option.splits)

lemma get_card_env_nonempty: "get_card_env d = Some e \<Longrightarrow> e \<noteq> []"
  by (auto simp: get_card_env_def Let_def split: if_splits option.splits)

lemma get_drm_cards_fake:
  "add_fake_cards data \<Longrightarrow>
   get_drm_cards cl data devices = fake_intel_card # real_cards cl devices @ [fake_trident_card]"
  by (simp add: get_drm_cards_def get_drm_cards_loop_eq add_fake_intel_card_def
      add_fake_trident_card_def g_ptr_array_add_def Let_def)

lemma get_drm_cards_real:
  "\<not> add_fake_cards data \<Longrightarrow>
   get_drm_cards cl data devices =
     (case real_cards cl devices of
        [c] \<Rightarrow> [c\<lparr>is_default := True\<rparr>]
      | cs \<Rightarrow> cs)"
  by (auto simp add: get_drm_cards_def get_drm_cards_loop_eq Let_def split: list.splits)

lemma real_cards_Cons:
  "real_cards cl (d # l) =
     (if is_render_node d then
        (case get_card_data cl d of None \<Rightarrow> real_cards cl l | Some c \<Rightarrow> c # real_cards cl l)
      else real_cards cl l)"
  by (simp add: real_cards_def split: option.splits)

lemma length_real_cards: "length (real_cards cl devices) = length (filter retained devices)"
proof (induction devices)
  case Nil
  show ?case by (simp add: real_cards_def)
next
  case (Cons d l)
  show ?case
  proof (cases "get_card_data cl d")
    case None
    then have "\<not> retained d" by (simp add: retained_def get_card_data_None_iff)
    with None Cons show ?thesis by (simp add: real_cards_Cons)
  next
    case (Some c)
    then have "retained d = is_render_node d"
      using get_card_data_None_iff [of cl d] by (simp add: retained_def)
    with Some Cons show ?thesis by (simp add: real_cards_Cons)
  qed
qed

lemma length_get_drm_cards_real:
  "length (get_drm_cards cl data devices) =
   (if add_fake_cards data then 2 else 0) + length (real_cards cl devices)"
  by (simp add: get_drm_cards_def get_drm_cards_loop_eq add_fake_intel_card_def
      add_fake_trident_card_def g_ptr_array_add_def Let_def)

lemma length_get_drm_cards:
  "length (get_drm_cards cl data devices) =
   (if add_fake_cards data then 2 else 0) + length (filter retained devices)"
  by (simp only: length_get_drm_cards_real length_real_cards)

lemma real_cards_mem:
  "c \<in> set (real_cards cl devices) \<Longrightarrow>
   \<exists>d. d \<in> set devices \<and> is_render_node d \<and> get_card_data cl d = Some c"
  by (auto simp: real_cards_def List.map_filter_def)

lemma get_card_data_SomeD:
  "get_card_data cl d = Some c \<Longrightarrow>
   dev c = Some d \<and> name c = get_card_name cl d \<and> get_card_env d = Some (env c) \<and>
   is_default c = get_card_is_default d"
  by (auto simp: get_card_data_def split: option.splits)

text \<open>Every card of an enumeration is a fake card, or the card of a retained device,
  possibly with its default flag forced.\<close>

lemma get_drm_cards_mem:
  assumes "c \<in> set (get_drm_cards cl data devices)"
  shows "(add_fake_cards data \<and> (c = fake_intel_card \<or> c = fake_trident_card)) \<or>
         (\<exists>d c0. d \<in> set devices \<and> is_render_node d \<and> get_card_data cl d = Some c0 \<and>
                 (c = c0 \<or> c = c0\<lparr>is_default := True\<rparr>))"
proof (cases "add_fake_cards data")
  case True
  with assms have "c = fake_intel_card \<or> c = fake_trident_card \<or> c \<in> set (real_cards cl devices)"
    by (auto simp: get_drm_cards_fake)
  with True show ?thesis
    using real_cards_mem by blast
next
  case False
  have "c \<in> set (real_cards cl devices) \<or>
      (\<exists>c0. c0 \<in> set (real_cards cl devices) \<and> c = c0\<lparr>is_default := True\<rparr>)"
  proof (cases "real_cards cl devices")
    case Nil
    with assms False show ?thesis by (simp add: get_drm_cards_real)
  next
    case (Cons c0 rest)
    with assms False show ?thesis
      by (cases rest) (auto simp: get_drm_cards_real)
  qed
  then show ?thesis
    using real_cards_mem by blast
qed

lemma get_drm_cards_env_nonempty:
  assumes "c \<in> set (get_drm_cards cl data devices)"
  shows "env c \<noteq> []"
  using get_drm_cards_mem [OF assms]
  by (auto simp: fake_intel_card_def fake_trident_card_def
      dest!: get_card_data_SomeD dest: get_card_env_nonempty)

lemma get_drm_cards_dev:
  assumes "c \<in> set (get_drm_cards cl data devices)" and "dev c = Some d"
  shows "d \<in> set devices \<and> is_render_node d \<and> get_card_env d = Some (env c) \<and>
         name c = get_card_name cl d"
  using get_drm_cards_mem [OF assms(1)] assms(2)
  by (auto simp: fake_intel_card_def fake_trident_card_def dest!: get_card_data_SomeD)

lemma map_dev_real_cards: "map dev (real_cards cl devices) = map Some (filter retained devices)"
proof (induction devices)
  case Nil
  show ?case by (simp add: real_cards_def)
next
  case (Cons d l)
  show ?case
  proof (cases "get_card_data cl d")
    case None
    then have "\<not> retained d" by (simp add: retained_def get_card_data_None_iff)
    with None Cons show ?thesis by (simp add: real_cards_Cons)
  next
    case (Some c)
    then have "retained d = is_render_node d"
      using get_card_data_None_iff [of cl d] by (simp add: retained_def)
    moreover from Some have "dev c = Some d" by (simp add: get_card_data_SomeD)
    ultimately show ?thesis using Some Cons by (simp add: real_cards_Cons)
  qed
qed

lemma map_dev_get_drm_cards:
  "\<not> add_fake_cards data \<Longrightarrow>
   map dev (get_drm_cards cl data devices) = map Some (filter retained devices)"
proof -
  assume "\<not> add_fake_cards data"
  then have "map dev (get_drm_cards cl data devices) = map dev (real_cards cl devices)"
    by (simp add: get_drm_cards_real split: list.splits)
  then show ?thesis by (simp add: map_dev_real_cards)
qed

subsection \<open>The publisher and the states of a run\<close>

lemma fst_send_dbus_event: "fst (send_dbus_event data) = data"
  by (simp add: send_dbus_event_def Let_def split: option.splits)

lemma send_dbus_event_None: "connection data = None \<Longrightarrow> send_dbus_event data = (data, [])"
  by (simp add: send_dbus_event_def)

lemma send_dbus_event_Some:
  "connection data = Some conn \<Longrightarrow>
   snd (send_dbus_event data) =
     [\<lparr>sig_connection = conn,
       sig_destination = None,
       sig_object_path = CONTROL_PROXY_DBUS_PATH,
       sig_interface_name = ''org.freedesktop.DBus.Properties'',
       sig_signal_name = ''PropertiesChanged'',
       sig_parameters =
         GTuple [GString CONTROL_PROXY_IFACE_NAME,
                 GDict [(''HasDualGpu'', GBoolean (num_gpus data \<ge> 2)),
                        (''NumGPUs'', GUint32 (num_gpus data)),
                        (''GPUs'', build_gpus_variant data)],
                 GStrv []]\<rparr>]"
  by (simp add: send_dbus_event_def Let_def)

lemma g_ptr_array_free_iff:
  "g_ptr_array_free cs = Inr () \<longleftrightarrow> (\<forall>c \<in> set cs. name_on_heap c)"
  by (induction cs) (simp_all add: free_card_data_def)

lemma g_ptr_array_free_cases:
  "g_ptr_array_free cs = Inr () \<or> g_ptr_array_free cs = Inl InvalidFree"
  by (induction cs) (auto simp: free_card_data_def)

lemma real_cards_on_heap: "c \<in> set (real_cards cl devices) \<Longrightarrow> name_on_heap c"
  by (auto simp: get_card_data_def split: option.splits dest!: real_cards_mem)

lemma get_drm_cards_on_heap:
  assumes "\<not> add_fake_cards data"
  shows "g_ptr_array_free (get_drm_cards cl data devices) = Inr ()"
proof -
  have "name_on_heap c" if "c \<in> set (get_drm_cards cl data devices)" for c
    using get_drm_cards_mem [OF that] assms
    by (auto simp: get_card_data_def split: option.splits)
  then show ?thesis by (simp add: g_ptr_array_free_iff)
qed

lemma get_drm_cards_fake_not_on_heap:
  assumes "add_fake_cards data"
  shows "g_ptr_array_free (get_drm_cards cl data devices) = Inl InvalidFree"
  using assms by (simp add: get_drm_cards_fake free_card_data_def fake_intel_card_def)

lemma uevent_cb_same:
  assumes "length (get_drm_cards cl data devices) = num_gpus data"
    and "g_ptr_array_free (get_drm_cards cl data devices) = Inr ()"
  shows "uevent_cb cl devices data = (Inr data, [])"
  using assms by (simp add: uevent_cb_def Let_def)

lemma uevent_cb_changed:
  assumes "length (get_drm_cards cl data devices) \<noteq> num_gpus data"
    and "g_ptr_array_free (cards data) = Inr ()"
  shows "uevent_cb cl devices data =
           (Inr (data\<lparr>cards := get_drm_cards cl data devices,
                       num_gpus := length (get_drm_cards cl data devices)\<rparr>),
            snd (send_dbus_event
              (data\<lparr>cards := get_drm_cards cl data devices,
                    num_gpus := length (get_drm_cards cl data devices)\<rparr>)))"
proof -
  let ?new = "data\<lparr>cards := get_drm_cards cl data devices,
      num_gpus := length (get_drm_cards cl data devices)\<rparr>"
  obtain d signals where sent: "send_dbus_event ?new = (d, signals)"
    by (cases "send_dbus_event ?new")
  with fst_send_dbus_event [of ?new] have "d = ?new"
    by simp
  with assms sent show ?thesis
    by (simp add: uevent_cb_def Let_def)
qed

lemma fst_uevent_cb_Inr:
  assumes "fst (uevent_cb cl devices data) = Inr data'"
  shows "(data' = data \<and> g_ptr_array_free (get_drm_cards cl data devices) = Inr ()) \<or>
         (data' = data\<lparr>cards := get_drm_cards cl data devices,
                        num_gpus := length (get_drm_cards cl data devices)\<rparr> \<and>
          g_ptr_array_free (cards data) = Inr ())"
proof (cases "length (get_drm_cards cl data devices) = num_gpus data")
  case True
  with assms show ?thesis
    by (simp add: uevent_cb_def Let_def split: sum.splits)
next
  case False
  let ?new = "data\<lparr>cards := get_drm_cards cl data devices,
      num_gpus := length (get_drm_cards cl data devices)\<rparr>"
  obtain d signals where sent: "send_dbus_event ?new = (d, signals)"
    by (cases "send_dbus_event ?new")
  with fst_send_dbus_event [of ?new] have "d = ?new"
    by simp
  with assms False sent show ?thesis
    by (simp add: uevent_cb_def Let_def split: sum.splits)
qed

lemma fst_name_acquired_handler: "fst (name_acquired_handler data) = data"
  by (simp add: name_acquired_handler_def fst_send_dbus_event)

lemma uevent_cb_no_connection:
  "connection data = None \<Longrightarrow> snd (uevent_cb cl devices data) = []"
  by (simp add: uevent_cb_def Let_def send_dbus_event_None split: sum.splits)

lemma get_drm_cards_no_empty_env: "[] \<notin> set (map env (get_drm_cards cl data devices))"
proof
  assume "[] \<in> set (map env (get_drm_cards cl data devices))"
  then obtain c where "c \<in> set (get_drm_cards cl data devices)" and "env c = []"
    by force
  then show False
    using get_drm_cards_env_nonempty by blast
qed

lemma reachable_env_nonempty:
  assumes "reachable cl data"
  shows "[] \<notin> set (map env (cards data))"
  using assms
proof (induction rule: reachable.induct)
  case (start n devices fake)
  show ?case
    using get_drm_cards_no_empty_env [of cl "initial_data fake" devices]
    by (simp add: get_num_gpus_def Let_def)
next
  case (bus_acquired data conn)
  then show ?case by (simp add: bus_acquired_handler_def)
next
  case (name_acquired data)
  then show ?case by (simp add: fst_name_acquired_handler)
next
  case (uevent data devices data')
  then show ?case
    using get_drm_cards_no_empty_env [of cl data devices] fst_uevent_cb_Inr [of cl devices data data']
    by auto
qed

lemma reachable_num_gpus:
  assumes "reachable cl data"
  shows "num_gpus data = length (cards data)"
  using assms
proof (induction rule: reachable.induct)
  case (start n devices fake)
  show ?case by (simp add: get_num_gpus_def Let_def)
next
  case (bus_acquired data conn)
  then show ?case by (simp add: bus_acquired_handler_def)
next
  case (name_acquired data)
  then show ?case by (simp add: fst_name_acquired_handler)
next
  case (uevent data devices data')
  then show ?case
    using fst_uevent_cb_Inr [of cl devices data data'] by auto
qed

text \<open>Without fake cards every name is allocated, so freeing never fails.\<close>

lemma reachable_on_heap:
  assumes "reachable cl data" and "\<not> add_fake_cards data"
  shows "g_ptr_array_free (cards data) = Inr ()"
  using assms
proof (induction rule: reachable.induct)
  case (start n devices fake)
  then have "\<not> add_fake_cards (initial_data fake)"
    by (simp add: get_num_gpus_def Let_def)
  then show ?case
    using get_drm_cards_on_heap [of "initial_data fake" cl devices]
    by (simp add: get_num_gpus_def Let_def)
next
  case (bus_acquired data conn)
  then show ?case by (simp add: bus_acquired_handler_def)
next
  case (name_acquired data)
  then show ?case by (simp add: fst_name_acquired_handler)
next
  case (uevent data devices data')
  then show ?case
    using fst_uevent_cb_Inr [of cl devices data data'] get_drm_cards_on_heap [of data cl devices]
    by auto
qed

text \<open>
  With fake cards the first array stored already holds a card whose name is a literal,
  and so does every new enumeration: either array a hotplug event frees makes the free
  invalid, and the event ends the process without a signal.
\<close>

lemma reachable_fake_not_on_heap:
  assumes "reachable cl data" and "add_fake_cards data"
  shows "g_ptr_array_free (cards data) = Inl InvalidFree"
  using assms
proof (induction rule: reachable.induct)
  case (start n devices fake)
  then have "add_fake_cards (initial_data fake)"
    by (simp add: get_num_gpus_def Let_def)
  then show ?case
    using get_drm_cards_fake_not_on_heap [of "initial_data fake" cl devices]
    by (simp add: get_num_gpus_def Let_def)
next
  case (bus_acquired data conn)
  then show ?case by (simp add: bus_acquired_handler_def)
next
  case (name_acquired data)
  then show ?case by (simp add: fst_name_acquired_handler)
next
  case (uevent data devices data')
  then show ?case
    using fst_uevent_cb_Inr [of cl devices data data']
      get_drm_cards_fake_not_on_heap [of data cl devices]
    by auto
qed

lemma uevent_cb_fake_cards_invalid_free:
  assumes "reachable cl data" and "add_fake_cards data"
  shows "uevent_cb cl devices data = (Inl InvalidFree, [])"
  using reachable_fake_not_on_heap [OF assms] get_drm_cards_fake_not_on_heap [OF assms(2), of cl devices]
  by (simp add: uevent_cb_def Let_def)

subsection \<open>The name of a card\<close>

lemma get_card_name_case:
  "get_card_name cl d =
     (case (get_card_name_vendor (g_udev_device_get_parent d),
            get_card_name_product (g_udev_device_get_parent d)) of
        (None, None) \<Rightarrow> ''Unknown Graphics Controller''
      | (None, Some product) \<Rightarrow> product
      | (Some vendor, None) \<Rightarrow> vendor
      | (Some vendor, Some product) \<Rightarrow> cl (vendor @ '' '' @ product))"
  by (simp add: get_card_name_def Let_def split: option.splits)

lemma get_card_name_vendor_override:
  "get_card_name_vendor p =
     (case g_udev_device_get_property p ''SWITCHEROO_CONTROL_VENDOR_NAME'' of
        None \<Rightarrow> g_udev_device_get_property p ''ID_VENDOR_FROM_DATABASE''
      | Some v \<Rightarrow> if v = '''' then g_udev_device_get_property p ''ID_VENDOR_FROM_DATABASE''
                  else Some v)"
  by (simp add: get_card_name_vendor_def Let_def split: option.splits)

lemma get_card_name_product_override:
  "get_card_name_product p =
     (case g_udev_device_get_property p ''SWITCHEROO_CONTROL_PRODUCT_NAME'' of
        None \<Rightarrow> g_udev_device_get_property p ''ID_MODEL_FROM_DATABASE''
      | Some v \<Rightarrow> if v = '''' then g_udev_device_get_property p ''ID_MODEL_FROM_DATABASE''
                  else Some v)"
  by (simp add: get_card_name_product_def Let_def split: option.splits)

lemma get_drm_cards_name:
  assumes "c \<in> set (get_drm_cards cl data devices)"
  shows "case dev c of
           None \<Rightarrow> c = fake_intel_card \<or> c = fake_trident_card
         | Some d \<Rightarrow> name c = get_card_name cl d"
  using get_drm_cards_mem [OF assms]
  by (auto simp: fake_intel_card_def fake_trident_card_def dest!: get_card_data_SomeD)

section \<open>The claims\<close>

subsection \<open>C1: the GPU count of an enumeration\<close>

text \<open>
  C1 fails with \<^verbatim>\<open>--fake\<close>: the render-node test and the environment test
  decide which real devices become cards, but the two fake cards are counted too. Here
  three devices are queried and one is retained, and the enumeration has three cards.
\<close>

theorem gpu_count_fake_counterexample:
  "length (get_drm_cards id (initial_data True) [intel_control, intel_render, untagged_render]) = 3 \<and>
   length (filter retained [intel_control, intel_render, untagged_render]) = 1"
  by (simp add: model_defs example_defs)

text \<open>
  C1, as amended. The number of cards of an enumeration, which \<^verbatim>\<open>get_num_gpus\<close>
  stores as \<^verbatim>\<open>num_gpus\<close>, is the number of devices that pass the render-node test
  and have a non-empty environment, plus two when fake cards are added. A device whose
  environment is empty gets no card: \<^verbatim>\<open>get_card_data\<close> returns NULL for it and no
  card of the enumeration refers to it.
\<close>

theorem gpu_count_enumeration:
  "length (get_drm_cards cl data devices) =
     (if add_fake_cards data then 2 else 0) + length (filter retained devices) \<and>
   num_gpus (get_num_gpus cl devices data) =
     (if add_fake_cards data then 2 else 0) + length (filter retained devices) \<and>
   (get_card_env d = None \<longrightarrow>
      get_card_data cl d = None \<and> Some d \<notin> set (map dev (get_drm_cards cl data devices)))"
proof -
  have "Some d \<notin> set (map dev (get_drm_cards cl data devices))" if "get_card_env d = None"
  proof
    assume "Some d \<in> set (map dev (get_drm_cards cl data devices))"
    then obtain c where "c \<in> set (get_drm_cards cl data devices)" and "dev c = Some d"
      by auto
    then have "get_card_env d = Some (env c)"
      using get_drm_cards_dev by blast
    with that show False by simp
  qed
  then show ?thesis
    by (simp add: length_get_drm_cards get_num_gpus_def Let_def get_card_data_None_iff)
qed

theorem gpu_count_enumeration_witness:
  "get_card_env untagged_render = None \<and>
   length (get_drm_cards id (initial_data False) [intel_control, intel_render, untagged_render]) = 1 \<and>
   length (filter retained [intel_control, intel_render, untagged_render]) = 1 \<and>
   Some untagged_render \<notin>
     set (map dev (get_drm_cards id (initial_data False)
       [intel_control, intel_render, untagged_render]))"
proof -
  have h: "get_card_env untagged_render = None"
    by (simp add: model_defs example_defs)
  have f: "filter retained [intel_control, intel_render, untagged_render] = [intel_render]"
    by (simp add: model_defs example_defs)
  have n: "\<not> add_fake_cards (initial_data False)"
    by (simp add: initial_data_def)
  from gpu_count_enumeration [of id "initial_data False"
      "[intel_control, intel_render, untagged_render]" untagged_render] h f n
  show ?thesis by simp
qed

subsection \<open>C2: a hotplug event compares the counts only\<close>

text \<open>
  C2 fails in its last part when there is no connection: the counts differ (0 before,
  1 now), the old array is freed and the new snapshot replaces it, but
  \<^verbatim>\<open>send_dbus_event\<close> returns at its guard and no notification is emitted.
\<close>

theorem uevent_cb_silent_counterexample:
  "connection (get_num_gpus id [] (initial_data False)) = None \<and>
   num_gpus (get_num_gpus id [] (initial_data False)) = 0 \<and>
   length (get_drm_cards id (get_num_gpus id [] (initial_data False)) [intel_render]) = 1 \<and>
   uevent_cb id [intel_render] (get_num_gpus id [] (initial_data False)) =
     (Inr ((get_num_gpus id [] (initial_data False))
        \<lparr>cards := get_drm_cards id (get_num_gpus id [] (initial_data False)) [intel_render],
         num_gpus := 1\<rparr>), [])"
  by (simp add: model_defs example_defs)

text \<open>
  C2, as amended. On a hotplug event the new enumeration is compared with the stored
  count only, and one of the two arrays is freed. Where that freeing succeeds, as it
  does in every state of a run without fake cards: when the counts are equal the state
  is returned as it was and nothing is emitted, whatever the new cards are; when they
  differ, the new cards and their number replace the old ones and
  \<^verbatim>\<open>send_dbus_event\<close> is called on the new state, which emits one
  \<^verbatim>\<open>PropertiesChanged\<close> signal carrying the new values when there is a connection,
  and nothing when there is none.
\<close>

theorem uevent_cb_count_only:
  "(length (get_drm_cards cl data devices) = num_gpus data \<and>
    g_ptr_array_free (get_drm_cards cl data devices) = Inr () \<longrightarrow>
      uevent_cb cl devices data = (Inr data, [])) \<and>
   (length (get_drm_cards cl data devices) \<noteq> num_gpus data \<and>
    g_ptr_array_free (cards data) = Inr () \<longrightarrow>
      fst (uevent_cb cl devices data) =
        Inr (data\<lparr>cards := get_drm_cards cl data devices,
                  num_gpus := length (get_drm_cards cl data devices)\<rparr>) \<and>
      snd (uevent_cb cl devices data) =
        snd (send_dbus_event (data\<lparr>cards := get_drm_cards cl data devices,
                                   num_gpus := length (get_drm_cards cl data devices)\<rparr>)) \<and>
      (connection data = None \<longrightarrow> snd (uevent_cb cl devices data) = []) \<and>
      (\<forall>conn. connection data = Some conn \<longrightarrow>
         length (snd (uevent_cb cl devices data)) = 1 \<and>
         map sig_connection (snd (uevent_cb cl devices data)) = [conn] \<and>
         map sig_signal_name (snd (uevent_cb cl devices data)) = [''PropertiesChanged''] \<and>
         map sig_parameters (snd (uevent_cb cl devices data)) =
           [GTuple [GString CONTROL_PROXY_IFACE_NAME,
                    GDict [(''HasDualGpu'',
                              GBoolean (length (get_drm_cards cl data devices) \<ge> 2)),
                           (''NumGPUs'', GUint32 (length (get_drm_cards cl data devices))),
                           (''GPUs'', build_gpus_variant
                              (data\<lparr>cards := get_drm_cards cl data devices,
                                    num_gpus := length (get_drm_cards cl data devices)\<rparr>))],
                    GStrv []]])) \<and>
   (\<not> add_fake_cards data \<longrightarrow> g_ptr_array_free (get_drm_cards cl data devices) = Inr ()) \<and>
   (\<not> add_fake_cards data \<and> reachable cl data \<longrightarrow> g_ptr_array_free (cards data) = Inr ())"
proof -
  let ?cs = "get_drm_cards cl data devices"
  let ?new = "data\<lparr>cards := ?cs, num_gpus := length ?cs\<rparr>"
  have same: "uevent_cb cl devices data = (Inr data, [])"
    if "length ?cs = num_gpus data" and "g_ptr_array_free ?cs = Inr ()"
    using that by (rule uevent_cb_same)
  have changed: "uevent_cb cl devices data = (Inr ?new, snd (send_dbus_event ?new))"
    if "length ?cs \<noteq> num_gpus data" and "g_ptr_array_free (cards data) = Inr ()"
    using that by (rule uevent_cb_changed)
  have silent: "snd (send_dbus_event ?new) = []" if "connection data = None"
    using that by (simp add: send_dbus_event_None)
  have sent: "length (snd (send_dbus_event ?new)) = 1 \<and>
         map sig_connection (snd (send_dbus_event ?new)) = [conn] \<and>
         map sig_signal_name (snd (send_dbus_event ?new)) = [''PropertiesChanged''] \<and>
         map sig_parameters (snd (send_dbus_event ?new)) =
           [GTuple [GString CONTROL_PROXY_IFACE_NAME,
                    GDict [(''HasDualGpu'', GBoolean (length ?cs \<ge> 2)),
                           (''NumGPUs'', GUint32 (length ?cs)),
                           (''GPUs'', build_gpus_variant ?new)],
                    GStrv []]]"
    if "connection data = Some conn" for conn
    using that send_dbus_event_Some [of ?new conn] by simp
  have fresh: "g_ptr_array_free ?cs = Inr ()" if "\<not> add_fake_cards data"
    using that by (rule get_drm_cards_on_heap)
  have stored: "g_ptr_array_free (cards data) = Inr ()"
    if "\<not> add_fake_cards data" and "reachable cl data"
    using that reachable_on_heap by blast
  show ?thesis
    using same changed silent sent fresh stored by simp
qed

theorem uevent_cb_count_only_witness:
  "reachable id ((get_num_gpus id [intel_render] (initial_data False))
     \<lparr>name_id := 1, init_done := True\<rparr>) \<and>
   \<not> add_fake_cards ((get_num_gpus id [intel_render] (initial_data False))
     \<lparr>name_id := 1, init_done := True\<rparr>) \<and>
   length (get_drm_cards id
       ((get_num_gpus id [intel_render] (initial_data False))\<lparr>name_id := 1, init_done := True\<rparr>)
       [nvidia_render])
     = num_gpus ((get_num_gpus id [intel_render] (initial_data False))
         \<lparr>name_id := 1, init_done := True\<rparr>) \<and>
   map name (get_drm_cards id
       ((get_num_gpus id [intel_render] (initial_data False))\<lparr>name_id := 1, init_done := True\<rparr>)
       [nvidia_render]) = [''NVIDIA Corporation GA104M''] \<and>
   map name (cards ((get_num_gpus id [intel_render] (initial_data False))
       \<lparr>name_id := 1, init_done := True\<rparr>)) = [''Intel Corporation UHD Graphics 620''] \<and>
   uevent_cb id [nvidia_render]
       ((get_num_gpus id [intel_render] (initial_data False))\<lparr>name_id := 1, init_done := True\<rparr>) =
     (Inr ((get_num_gpus id [intel_render] (initial_data False))
        \<lparr>name_id := 1, init_done := True\<rparr>), []) \<and>
   connection (bus_acquired_handler 1
     ((get_num_gpus id [intel_render] (initial_data False))\<lparr>name_id := 1, init_done := True\<rparr>)) =
     Some 1 \<and>
   fst (uevent_cb id [intel_render, nvidia_render]
     (bus_acquired_handler 1
       ((get_num_gpus id [intel_render] (initial_data False))
          \<lparr>name_id := 1, init_done := True\<rparr>))) =
     Inr ((bus_acquired_handler 1
       ((get_num_gpus id [intel_render] (initial_data False))
          \<lparr>name_id := 1, init_done := True\<rparr>))
       \<lparr>cards := get_drm_cards id
          (bus_acquired_handler 1
       ((get_num_gpus id [intel_render] (initial_data False))
          \<lparr>name_id := 1, init_done := True\<rparr>))
          [intel_render, nvidia_render],
        num_gpus := 2\<rparr>) \<and>
   map sig_signal_name (snd (uevent_cb id [intel_render, nvidia_render]
     (bus_acquired_handler 1
       ((get_num_gpus id [intel_render] (initial_data False))
          \<lparr>name_id := 1, init_done := True\<rparr>)))) = [''PropertiesChanged'']"
proof -
  let ?a = "(get_num_gpus id [intel_render] (initial_data False))\<lparr>name_id := 1, init_done := True\<rparr>"
  let ?b = "bus_acquired_handler 1 ?a"
  have ra: "reachable id ?a"
    by (rule reachable.start)
  have rb: "reachable id ?b"
    using ra by (rule reachable.bus_acquired)
  have na: "\<not> add_fake_cards ?a" and nb: "\<not> add_fake_cards ?b"
    by (simp_all add: get_num_gpus_def initial_data_def bus_acquired_handler_def Let_def)
  have a1: "length (get_drm_cards id ?a [nvidia_render]) = num_gpus ?a"
    by (simp add: model_defs example_defs)
  have a2: "map name (get_drm_cards id ?a [nvidia_render]) = [''NVIDIA Corporation GA104M'']"
    by (simp add: model_defs example_defs)
  have a3: "map name (cards ?a) = [''Intel Corporation UHD Graphics 620'']"
    by (simp add: model_defs example_defs)
  have b0: "length (get_drm_cards id ?b [intel_render, nvidia_render]) = 2"
    by (simp add: model_defs example_defs)
  have b1: "num_gpus ?b = 1"
    by (simp add: model_defs example_defs)
  have b2: "connection ?b = Some 1"
    by (simp add: bus_acquired_handler_def)
  from uevent_cb_count_only [of id ?a "[nvidia_render]"] a1 na
  have t1: "uevent_cb id [nvidia_render] ?a = (Inr ?a, [])"
    by blast
  from b0 b1 have b3: "length (get_drm_cards id ?b [intel_render, nvidia_render]) \<noteq> num_gpus ?b"
    by simp
  from uevent_cb_count_only [of id ?b "[intel_render, nvidia_render]"] b3 b2 nb rb
  have t2: "fst (uevent_cb id [intel_render, nvidia_render] ?b) =
        Inr (?b\<lparr>cards := get_drm_cards id ?b [intel_render, nvidia_render],
                 num_gpus := length (get_drm_cards id ?b [intel_render, nvidia_render])\<rparr>) \<and>
      map sig_signal_name (snd (uevent_cb id [intel_render, nvidia_render] ?b)) =
        [''PropertiesChanged'']"
    by blast
  from t2 b0
  have t3: "fst (uevent_cb id [intel_render, nvidia_render] ?b) =
        Inr (?b\<lparr>cards := get_drm_cards id ?b [intel_render, nvidia_render], num_gpus := 2\<rparr>)"
    by simp
  from ra na a1 a2 a3 t1 b2 t2 t3 show ?thesis by blast
qed

subsection \<open>C3: the environment of a card on the nvidia driver\<close>

text \<open>
  C3. When the driver of the parent device is \<^verbatim>\<open>nvidia\<close>, \<^verbatim>\<open>get_card_env\<close>
  returns six strings, which are the three pairs
  \<^verbatim>\<open>__GLX_VENDOR_LIBRARY_NAME=nvidia\<close>, \<^verbatim>\<open>__NV_PRIME_RENDER_OFFLOAD=1\<close> and
  \<^verbatim>\<open>__VK_LAYER_NV_optimus=NVIDIA_only\<close> in this order, whatever the properties of
  the device are (its \<^verbatim>\<open>ID_PATH_TAG\<close> among them).
\<close>

theorem get_card_env_nvidia:
  assumes "g_udev_device_get_driver (g_udev_device_get_parent d) = Some ''nvidia''"
  shows "get_card_env d =
           Some [''__GLX_VENDOR_LIBRARY_NAME'', ''nvidia'',
                 ''__NV_PRIME_RENDER_OFFLOAD'', ''1'',
                 ''__VK_LAYER_NV_optimus'', ''NVIDIA_only''] \<and>
         map_option env_pairs (get_card_env d) =
           Some [(''__GLX_VENDOR_LIBRARY_NAME'', ''nvidia''),
                 (''__NV_PRIME_RENDER_OFFLOAD'', ''1''),
                 (''__VK_LAYER_NV_optimus'', ''NVIDIA_only'')]"
  using assms by (simp add: get_card_env_def g_strcmp0_is_0_def)

theorem get_card_env_nvidia_witness:
  "g_udev_device_get_property (Some nvidia_render) ''ID_PATH_TAG'' = Some ''pci-0000_01_00_0'' \<and>
   g_udev_device_get_driver (g_udev_device_get_parent nvidia_render) = Some ''nvidia'' \<and>
   get_card_env nvidia_render =
     Some [''__GLX_VENDOR_LIBRARY_NAME'', ''nvidia'',
           ''__NV_PRIME_RENDER_OFFLOAD'', ''1'',
           ''__VK_LAYER_NV_optimus'', ''NVIDIA_only'']"
proof -
  have h: "g_udev_device_get_driver (g_udev_device_get_parent nvidia_render) = Some ''nvidia''"
    by (simp add: nvidia_render_def nvidia_pci_def g_udev_device_get_driver_def
        g_udev_device_get_parent_def)
  have t: "g_udev_device_get_property (Some nvidia_render) ''ID_PATH_TAG'' = Some ''pci-0000_01_00_0''"
    by (simp add: nvidia_render_def g_udev_device_get_property_def)
  from get_card_env_nvidia [OF h] h t show ?thesis by simp
qed

subsection \<open>C4: the environment of a card on any other driver\<close>

text \<open>
  C4. When the driver of the parent device is not \<^verbatim>\<open>nvidia\<close>: a device with an
  \<^verbatim>\<open>ID_PATH_TAG\<close> property gets the two strings \<^verbatim>\<open>DRI_PRIME\<close> and the tag,
  that is the single pair \<^verbatim>\<open>DRI_PRIME=tag\<close>; a device without the property gets no
  environment, \<^verbatim>\<open>get_card_data\<close> returns NULL for it and no card of an enumeration
  refers to it. So no card of an enumeration has an empty environment, and neither has
  a card of the snapshot held in any state of a run.
\<close>

theorem get_card_env_generic:
  assumes "g_udev_device_get_driver (g_udev_device_get_parent d) \<noteq> Some ''nvidia''"
  shows "(\<forall>tag. g_udev_device_get_property (Some d) ''ID_PATH_TAG'' = Some tag \<longrightarrow>
            get_card_env d = Some [''DRI_PRIME'', tag] \<and>
            map_option env_pairs (get_card_env d) = Some [(''DRI_PRIME'', tag)]) \<and>
         (g_udev_device_get_property (Some d) ''ID_PATH_TAG'' = None \<longrightarrow>
            get_card_env d = None \<and> get_card_data cl d = None \<and>
            Some d \<notin> set (map dev (get_drm_cards cl data devices))) \<and>
         [] \<notin> set (map env (get_drm_cards cl data devices)) \<and>
         (reachable cl data \<longrightarrow> [] \<notin> set (map env (cards data)))"
proof -
  have tagged: "get_card_env d = Some [''DRI_PRIME'', tag]"
    if "g_udev_device_get_property (Some d) ''ID_PATH_TAG'' = Some tag" for tag
    using assms that by (simp add: get_card_env_def g_strcmp0_is_0_def)
  have untagged: "get_card_env d = None"
    if "g_udev_device_get_property (Some d) ''ID_PATH_TAG'' = None"
    using assms that by (simp add: get_card_env_def g_strcmp0_is_0_def)
  have excluded: "Some d \<notin> set (map dev (get_drm_cards cl data devices))"
    if "get_card_env d = None"
  proof
    assume "Some d \<in> set (map dev (get_drm_cards cl data devices))"
    then obtain c where "c \<in> set (get_drm_cards cl data devices)" and "dev c = Some d"
      by auto
    then have "get_card_env d = Some (env c)"
      using get_drm_cards_dev by blast
    with that show False by simp
  qed
  have published: "[] \<notin> set (map env (get_drm_cards cl data devices))"
    by (rule get_drm_cards_no_empty_env)
  show ?thesis
    using tagged untagged excluded published reachable_env_nonempty [of cl data]
    by (simp add: get_card_data_None_iff)
qed

theorem get_card_env_generic_witness:
  "g_udev_device_get_driver (g_udev_device_get_parent intel_render) \<noteq> Some ''nvidia'' \<and>
   g_udev_device_get_property (Some intel_render) ''ID_PATH_TAG'' = Some ''pci-0000_00_02_0'' \<and>
   get_card_env intel_render = Some [''DRI_PRIME'', ''pci-0000_00_02_0''] \<and>
   g_udev_device_get_driver (g_udev_device_get_parent untagged_render) \<noteq> Some ''nvidia'' \<and>
   g_udev_device_get_property (Some untagged_render) ''ID_PATH_TAG'' = None \<and>
   get_card_env untagged_render = None \<and>
   Some untagged_render \<notin>
     set (map dev (get_drm_cards id (initial_data False) [intel_render, untagged_render])) \<and>
   fst (uevent_cb id [intel_render, untagged_render]
          ((get_num_gpus id [] (initial_data False))\<lparr>name_id := 1, init_done := True\<rparr>)) =
     Inr ((get_num_gpus id [] (initial_data False))
       \<lparr>name_id := 1, init_done := True,
        cards := get_drm_cards id (initial_data False) [intel_render, untagged_render],
        num_gpus := 1\<rparr>) \<and>
   reachable id
     ((get_num_gpus id [] (initial_data False))
       \<lparr>name_id := 1, init_done := True,
        cards := get_drm_cards id (initial_data False) [intel_render, untagged_render],
        num_gpus := 1\<rparr>) \<and>
   [] \<notin> set (map env (cards
     ((get_num_gpus id [] (initial_data False))
       \<lparr>name_id := 1, init_done := True,
        cards := get_drm_cards id (initial_data False) [intel_render, untagged_render],
        num_gpus := 1\<rparr>)))"
proof -
  let ?s0 = "(get_num_gpus id [] (initial_data False))\<lparr>name_id := 1, init_done := True\<rparr>"
  let ?s1 = "(get_num_gpus id [] (initial_data False))
       \<lparr>name_id := 1, init_done := True,
        cards := get_drm_cards id (initial_data False) [intel_render, untagged_render],
        num_gpus := 1\<rparr>"
  have a1: "g_udev_device_get_driver (g_udev_device_get_parent intel_render) \<noteq> Some ''nvidia''"
    by (simp add: model_defs example_defs)
  have a2: "g_udev_device_get_property (Some intel_render) ''ID_PATH_TAG'' = Some ''pci-0000_00_02_0''"
    by (simp add: model_defs example_defs)
  have b1: "g_udev_device_get_driver (g_udev_device_get_parent untagged_render) \<noteq> Some ''nvidia''"
    by (simp add: model_defs example_defs)
  have b2: "g_udev_device_get_property (Some untagged_render) ''ID_PATH_TAG'' = None"
    by (simp add: model_defs example_defs)
  have e: "fst (uevent_cb id [intel_render, untagged_render] ?s0) = Inr ?s1"
    by (simp add: model_defs example_defs)
  have "reachable id ?s0"
    by (rule reachable.start)
  then have r: "reachable id ?s1"
    using e by (rule reachable.uevent)
  from get_card_env_generic [OF a1] a2
  have t1: "get_card_env intel_render = Some [''DRI_PRIME'', ''pci-0000_00_02_0'']"
    by blast
  from get_card_env_generic [OF b1, of id "initial_data False" "[intel_render, untagged_render]"] b2
  have t2: "get_card_env untagged_render = None \<and>
    Some untagged_render \<notin>
      set (map dev (get_drm_cards id (initial_data False) [intel_render, untagged_render]))"
    by blast
  from get_card_env_generic [OF b1, of id ?s1 "[]"] r
  have t3: "[] \<notin> set (map env (cards ?s1))"
    by blast
  from a1 a2 b1 b2 e r t1 t2 t3 show ?thesis by blast
qed

subsection \<open>C5: the default flag\<close>

text \<open>
  C5 fails with \<^verbatim>\<open>--fake\<close>: the test of \<^verbatim>\<open>get_drm_cards\<close> is on the length of
  the card array, which holds the two fake cards too. Here one device is retained, its
  parent is not the boot display, the array has three cards and the flag of the retained
  device stays false.
\<close>

theorem default_flag_fake_counterexample:
  "add_fake_cards (initial_data True) \<and>
   filter retained [intel_control, intel_render] = [intel_render] \<and>
   get_card_is_default intel_render = False \<and>
   map dev (get_drm_cards id (initial_data True) [intel_control, intel_render]) =
     [None, Some intel_render, None] \<and>
   map is_default (get_drm_cards id (initial_data True) [intel_control, intel_render]) =
     [False, False, False]"
  by (simp add: model_defs example_defs)

text \<open>
  C5, as amended. When the card array of an enumeration (the cards of the retained
  devices, and the two fake cards when they are added) has exactly one card, the card is
  the default one, whatever the \<^verbatim>\<open>boot_vga\<close> attribute of its parent says. When it
  has any other number of cards, the default flag of each card is the \<^verbatim>\<open>boot_vga\<close>
  attribute of the parent of its device (and false for a fake card, which has no
  device). Without fake cards the devices of the cards are the retained devices, in
  order; with fake cards the array never has exactly one card.
\<close>

theorem get_drm_cards_default_flag:
  "(length (get_drm_cards cl data devices) = 1 \<longrightarrow>
      is_default (get_drm_cards cl data devices ! 0) \<and>
      (\<forall>c \<in> set (get_drm_cards cl data devices). is_default c)) \<and>
   (length (get_drm_cards cl data devices) \<noteq> 1 \<longrightarrow>
      (\<forall>c \<in> set (get_drm_cards cl data devices). is_default c = card_boot_vga c)) \<and>
   (\<not> add_fake_cards data \<longrightarrow>
      map dev (get_drm_cards cl data devices) = map Some (filter retained devices)) \<and>
   (add_fake_cards data \<longrightarrow> length (get_drm_cards cl data devices) \<noteq> 1)"
proof -
  have raw: "is_default c = card_boot_vga c" if "c \<in> set (real_cards cl devices)" for c
    using real_cards_mem [OF that] by (auto simp: card_boot_vga_def dest!: get_card_data_SomeD)
  have flags: "(length (get_drm_cards cl data devices) = 1 \<longrightarrow>
      is_default (get_drm_cards cl data devices ! 0) \<and>
      (\<forall>c \<in> set (get_drm_cards cl data devices). is_default c)) \<and>
   (length (get_drm_cards cl data devices) \<noteq> 1 \<longrightarrow>
      (\<forall>c \<in> set (get_drm_cards cl data devices). is_default c = card_boot_vga c))"
  proof (cases "add_fake_cards data")
    case True
    with raw show ?thesis
      by (auto simp: get_drm_cards_fake card_boot_vga_def fake_intel_card_def
          fake_trident_card_def)
  next
    case False
    show ?thesis
    proof (cases "real_cards cl devices")
      case Nil
      with False show ?thesis by (simp add: get_drm_cards_real)
    next
      case (Cons c0 rest)
      show ?thesis
      proof (cases rest)
        case Nil
        with Cons False show ?thesis by (simp add: get_drm_cards_real)
      next
        case (Cons c1 rest')
        with \<open>real_cards cl devices = c0 # rest\<close> False raw show ?thesis
          by (simp add: get_drm_cards_real)
      qed
    qed
  qed
  have fake: "length (get_drm_cards cl data devices) \<noteq> 1" if "add_fake_cards data"
    using that by (simp add: get_drm_cards_fake)
  from flags fake map_dev_get_drm_cards [of data cl devices] show ?thesis
    by blast
qed

theorem get_drm_cards_default_flag_witness:
  "\<not> add_fake_cards (initial_data False) \<and>
   get_card_is_default intel_render = False \<and>
   length (get_drm_cards id (initial_data False) [intel_control, intel_render]) = 1 \<and>
   map dev (get_drm_cards id (initial_data False) [intel_control, intel_render]) =
     [Some intel_render] \<and>
   is_default (get_drm_cards id (initial_data False) [intel_control, intel_render] ! 0) \<and>
   length (get_drm_cards id (initial_data False) [intel_render, nvidia_render]) \<noteq> 1 \<and>
   map is_default (get_drm_cards id (initial_data False) [intel_render, nvidia_render]) =
     map card_boot_vga (get_drm_cards id (initial_data False) [intel_render, nvidia_render]) \<and>
   map card_boot_vga (get_drm_cards id (initial_data False) [intel_render, nvidia_render]) =
     [False, True] \<and>
   add_fake_cards (initial_data True) \<and>
   length (get_drm_cards id (initial_data True) [intel_render]) \<noteq> 1"
proof -
  have n: "\<not> add_fake_cards (initial_data False)" and f: "add_fake_cards (initial_data True)"
    by (simp_all add: initial_data_def)
  have l1: "length (get_drm_cards id (initial_data False) [intel_control, intel_render]) = 1"
    by (simp add: model_defs example_defs)
  have l2: "length (get_drm_cards id (initial_data False) [intel_render, nvidia_render]) \<noteq> 1"
    by (simp add: model_defs example_defs)
  have raw: "get_card_is_default intel_render = False"
    by (simp add: model_defs example_defs)
  have r: "filter retained [intel_control, intel_render] = [intel_render]"
    by (simp add: model_defs example_defs)
  have v: "map card_boot_vga (get_drm_cards id (initial_data False) [intel_render, nvidia_render]) =
     [False, True]"
    by (simp add: model_defs example_defs)
  from get_drm_cards_default_flag [of id "initial_data False" "[intel_control, intel_render]"] l1 n r
  have t1: "is_default (get_drm_cards id (initial_data False) [intel_control, intel_render] ! 0) \<and>
      map dev (get_drm_cards id (initial_data False) [intel_control, intel_render]) =
        [Some intel_render]"
    by simp
  from get_drm_cards_default_flag [of id "initial_data False" "[intel_render, nvidia_render]"] l2
  have t2: "map is_default (get_drm_cards id (initial_data False) [intel_render, nvidia_render]) =
     map card_boot_vga (get_drm_cards id (initial_data False) [intel_render, nvidia_render])"
    by simp
  from get_drm_cards_default_flag [of id "initial_data True" "[intel_render]"] f
  have t3: "length (get_drm_cards id (initial_data True) [intel_render]) \<noteq> 1"
    by blast
  from n f l1 l2 raw v t1 t2 t3 show ?thesis by blast
qed

subsection \<open>C6: the four cases of the name\<close>

text \<open>
  C6. \<^verbatim>\<open>get_card_name\<close> always returns a string (the model has no error result,
  as the code has no failing branch), by cases on the vendor and the product it looked
  up: the literal \<^verbatim>\<open>Unknown Graphics Controller\<close> when both are absent; the one that
  is present, as it is, when the other is absent; and \<^verbatim>\<open>info_cleanup\<close> of vendor,
  one space, product when both are present.
\<close>

theorem get_card_name_cases:
  "get_card_name cl d =
     (case (get_card_name_vendor (g_udev_device_get_parent d),
            get_card_name_product (g_udev_device_get_parent d)) of
        (None, None) \<Rightarrow> ''Unknown Graphics Controller''
      | (None, Some product) \<Rightarrow> product
      | (Some vendor, None) \<Rightarrow> vendor
      | (Some vendor, Some product) \<Rightarrow> cl (vendor @ '' '' @ product))"
proof (cases "get_card_name_vendor (g_udev_device_get_parent d)")
  case None
  then show ?thesis
    by (cases "get_card_name_product (g_udev_device_get_parent d)")
       (simp_all add: get_card_name_def)
next
  case (Some vendor)
  then show ?thesis
    by (cases "get_card_name_product (g_udev_device_get_parent d)")
       (simp_all add: get_card_name_def)
qed

theorem get_card_name_cases_witness:
  "get_card_name rev intel_render = rev ''Intel Corporation UHD Graphics 620'' \<and>
   get_card_name rev untagged_render = ''Unknown Graphics Controller'' \<and>
   get_card_name rev blank_vendor_render = ''''"
proof -
  have v: "get_card_name_vendor (g_udev_device_get_parent intel_render) = Some ''Intel Corporation''"
    "get_card_name_product (g_udev_device_get_parent intel_render) = Some ''UHD Graphics 620''"
    "get_card_name_vendor (g_udev_device_get_parent untagged_render) = None"
    "get_card_name_product (g_udev_device_get_parent untagged_render) = None"
    "get_card_name_vendor (g_udev_device_get_parent blank_vendor_render) = Some ''''"
    "get_card_name_product (g_udev_device_get_parent blank_vendor_render) = None"
    by (simp_all add: model_defs example_defs)
  show ?thesis
    using get_card_name_cases [of rev intel_render] get_card_name_cases [of rev untagged_render]
      get_card_name_cases [of rev blank_vendor_render]
    by (simp add: v)
qed

subsection \<open>C7: the name is not always non-empty\<close>

text \<open>
  C7 fails on a device whose parent has an empty \<^verbatim>\<open>ID_VENDOR_FROM_DATABASE\<close> and
  no product: the vendor is present (it is not NULL), so the name is the vendor, the
  empty string, and the card is published with it.
\<close>

theorem published_name_empty_counterexample:
  "g_udev_device_get_property (g_udev_device_get_parent blank_vendor_render)
     ''ID_VENDOR_FROM_DATABASE'' = Some '''' \<and>
   map name (get_drm_cards id (initial_data False) [blank_vendor_render]) = ['''']"
  by (simp add: model_defs example_defs)

text \<open>
  C7, as amended. The name of a card of an enumeration is the fallback
  \<^verbatim>\<open>Unknown Graphics Controller\<close> when both vendor and product are absent after the
  lookups. It is the empty string in two cases only: the single value present is the
  empty string, or both are present and \<^verbatim>\<open>info_cleanup\<close> returns the empty string.
  A looked-up value is the empty string only when it is the database property: an
  override that is empty is replaced by the database value, a database value that is
  empty is kept. The fake cards have non-empty names.
\<close>

theorem published_name_empty_iff:
  assumes "c \<in> set (get_drm_cards cl data devices)"
  shows "(name c = '''') =
           (\<exists>d. dev c = Some d \<and>
             ((get_card_name_vendor (g_udev_device_get_parent d) = Some '''' \<and>
               get_card_name_product (g_udev_device_get_parent d) = None) \<or>
              (get_card_name_vendor (g_udev_device_get_parent d) = None \<and>
               get_card_name_product (g_udev_device_get_parent d) = Some '''') \<or>
              (\<exists>v p. get_card_name_vendor (g_udev_device_get_parent d) = Some v \<and>
                     get_card_name_product (g_udev_device_get_parent d) = Some p \<and>
                     cl (v @ '' '' @ p) = ''''))) \<and>
         (\<forall>d. dev c = Some d \<and>
               get_card_name_vendor (g_udev_device_get_parent d) = None \<and>
               get_card_name_product (g_udev_device_get_parent d) = None \<longrightarrow>
               name c = ''Unknown Graphics Controller'') \<and>
         (get_card_name_vendor p = Some '''') =
           (g_udev_device_get_property p ''ID_VENDOR_FROM_DATABASE'' = Some '''' \<and>
            (g_udev_device_get_property p ''SWITCHEROO_CONTROL_VENDOR_NAME'' = None \<or>
             g_udev_device_get_property p ''SWITCHEROO_CONTROL_VENDOR_NAME'' = Some '''')) \<and>
         (get_card_name_product p = Some '''') =
           (g_udev_device_get_property p ''ID_MODEL_FROM_DATABASE'' = Some '''' \<and>
            (g_udev_device_get_property p ''SWITCHEROO_CONTROL_PRODUCT_NAME'' = None \<or>
             g_udev_device_get_property p ''SWITCHEROO_CONTROL_PRODUCT_NAME'' = Some ''''))"
proof -
  have empty_iff: "(name c = '''') =
           (\<exists>d. dev c = Some d \<and>
             ((get_card_name_vendor (g_udev_device_get_parent d) = Some '''' \<and>
               get_card_name_product (g_udev_device_get_parent d) = None) \<or>
              (get_card_name_vendor (g_udev_device_get_parent d) = None \<and>
               get_card_name_product (g_udev_device_get_parent d) = Some '''') \<or>
              (\<exists>v p. get_card_name_vendor (g_udev_device_get_parent d) = Some v \<and>
                     get_card_name_product (g_udev_device_get_parent d) = Some p \<and>
                     cl (v @ '' '' @ p) = '''')))"
  proof (cases "dev c")
    case None
    with get_drm_cards_name [OF assms] have "c = fake_intel_card \<or> c = fake_trident_card"
      by simp
    then have "name c \<noteq> ''''"
      by (auto simp: fake_intel_card_def fake_trident_card_def)
    with None show ?thesis by simp
  next
    case (Some d)
    with get_drm_cards_name [OF assms] have "name c = get_card_name cl d"
      by simp
    with Some show ?thesis
      by (auto simp: get_card_name_case split: option.splits)
  qed
  have fallback: "name c = ''Unknown Graphics Controller''"
    if "dev c = Some d"
      and "get_card_name_vendor (g_udev_device_get_parent d) = None"
      and "get_card_name_product (g_udev_device_get_parent d) = None" for d
    using get_drm_cards_name [OF assms] that by (simp add: get_card_name_case)
  have vendor: "(get_card_name_vendor p = Some '''') =
           (g_udev_device_get_property p ''ID_VENDOR_FROM_DATABASE'' = Some '''' \<and>
            (g_udev_device_get_property p ''SWITCHEROO_CONTROL_VENDOR_NAME'' = None \<or>
             g_udev_device_get_property p ''SWITCHEROO_CONTROL_VENDOR_NAME'' = Some ''''))"
    by (auto simp: get_card_name_vendor_override split: option.splits)
  have product: "(get_card_name_product p = Some '''') =
           (g_udev_device_get_property p ''ID_MODEL_FROM_DATABASE'' = Some '''' \<and>
            (g_udev_device_get_property p ''SWITCHEROO_CONTROL_PRODUCT_NAME'' = None \<or>
             g_udev_device_get_property p ''SWITCHEROO_CONTROL_PRODUCT_NAME'' = Some ''''))"
    by (auto simp: get_card_name_product_override split: option.splits)
  from empty_iff fallback vendor product show ?thesis by blast
qed

theorem published_name_empty_iff_witness:
  "get_drm_cards id (initial_data False) [intel_render, nvidia_render] ! 0
     \<in> set (get_drm_cards id (initial_data False) [intel_render, nvidia_render]) \<and>
   dev (get_drm_cards id (initial_data False) [intel_render, nvidia_render] ! 0) =
     Some intel_render \<and>
   name (get_drm_cards id (initial_data False) [intel_render, nvidia_render] ! 0) \<noteq> ''''"
proof -
  let ?c = "get_drm_cards id (initial_data False) [intel_render, nvidia_render] ! 0"
  have m: "?c \<in> set (get_drm_cards id (initial_data False) [intel_render, nvidia_render])"
    by (simp add: model_defs example_defs)
  have d: "dev ?c = Some intel_render"
    by (simp add: model_defs example_defs)
  have v: "get_card_name_vendor (g_udev_device_get_parent intel_render) = Some ''Intel Corporation''"
    "get_card_name_product (g_udev_device_get_parent intel_render) = Some ''UHD Graphics 620''"
    by (simp_all add: model_defs example_defs)
  from published_name_empty_iff [OF m] d v have "name ?c \<noteq> ''''"
    by simp
  with m d show ?thesis by blast
qed

subsection \<open>C8: the fake cards\<close>

text \<open>
  C8. With fake cards the enumeration is the fake Intel card, then the cards of the real
  devices in order, then the fake Trident card. When no real device is retained, the
  snapshot stored at start-up has these two cards, \<^verbatim>\<open>num_gpus\<close> is 2, and once the
  bus is acquired the property \<^verbatim>\<open>NumGPUs\<close> reads 2 and \<^verbatim>\<open>HasDualGpu\<close> reads true.
\<close>

theorem fake_cards_order:
  assumes "add_fake_cards data"
  shows "get_drm_cards cl data devices =
           fake_intel_card # real_cards cl devices @ [fake_trident_card] \<and>
         hd (get_drm_cards cl data devices) = fake_intel_card \<and>
         last (get_drm_cards cl data devices) = fake_trident_card \<and>
         (real_cards cl devices = [] \<longrightarrow>
            cards (get_num_gpus cl devices data) = [fake_intel_card, fake_trident_card] \<and>
            num_gpus (get_num_gpus cl devices data) = 2 \<and>
            handle_get_property (bus_acquired_handler conn (get_num_gpus cl devices data))
              ''NumGPUs'' = Inr (Some (GUint32 2)) \<and>
            handle_get_property (bus_acquired_handler conn (get_num_gpus cl devices data))
              ''HasDualGpu'' = Inr (Some (GBoolean True)))"
proof -
  have shape: "get_drm_cards cl data devices =
      fake_intel_card # real_cards cl devices @ [fake_trident_card]"
    using assms by (rule get_drm_cards_fake)
  have none: "cards (get_num_gpus cl devices data) = [fake_intel_card, fake_trident_card] \<and>
      num_gpus (get_num_gpus cl devices data) = 2"
    if "real_cards cl devices = []"
    using that shape by (simp add: get_num_gpus_def Let_def)
  have props: "handle_get_property (bus_acquired_handler conn s) ''NumGPUs'' =
        Inr (Some (GUint32 2)) \<and>
      handle_get_property (bus_acquired_handler conn s) ''HasDualGpu'' =
        Inr (Some (GBoolean True))"
    if "num_gpus s = 2" for s
    using that by (simp add: handle_get_property_def bus_acquired_handler_def)
  show ?thesis
    using shape none props [of "get_num_gpus cl devices data"] by simp
qed

theorem fake_cards_order_witness:
  "add_fake_cards (initial_data True) \<and>
   real_cards id [intel_control, untagged_render] = [] \<and>
   map name (cards (get_num_gpus id [intel_control, untagged_render] (initial_data True))) =
     [''Intel i740 '' @ [CHR 0xE2, CHR 0x80, CHR 0x9C] @ ''Auburn''
        @ [CHR 0xE2, CHR 0x80, CHR 0x9D],
      ''Trident Vesa Local Bus 512KB''] \<and>
   num_gpus (get_num_gpus id [intel_control, untagged_render] (initial_data True)) = 2 \<and>
   handle_get_property
     (bus_acquired_handler 1 (get_num_gpus id [intel_control, untagged_render] (initial_data True)))
     ''HasDualGpu'' = Inr (Some (GBoolean True)) \<and>
   map name (get_drm_cards id (initial_data True) [intel_render]) =
     [name fake_intel_card, ''Intel Corporation UHD Graphics 620'', name fake_trident_card]"
proof -
  have f: "add_fake_cards (initial_data True)"
    by (simp add: initial_data_def)
  have r: "real_cards id [intel_control, untagged_render] = []"
    by (simp add: model_defs example_defs)
  have r1: "map name (real_cards id [intel_render]) = [''Intel Corporation UHD Graphics 620'']"
    by (simp add: model_defs example_defs)
  from fake_cards_order [OF f, of id "[intel_control, untagged_render]" 1] r
  have t1: "cards (get_num_gpus id [intel_control, untagged_render] (initial_data True)) =
        [fake_intel_card, fake_trident_card] \<and>
      num_gpus (get_num_gpus id [intel_control, untagged_render] (initial_data True)) = 2 \<and>
      handle_get_property
        (bus_acquired_handler 1
          (get_num_gpus id [intel_control, untagged_render] (initial_data True)))
        ''HasDualGpu'' = Inr (Some (GBoolean True))"
    by blast
  from fake_cards_order [OF f, of id "[intel_render]" 1] r1
  have t2: "map name (get_drm_cards id (initial_data True) [intel_render]) =
     [name fake_intel_card, ''Intel Corporation UHD Graphics 620'', name fake_trident_card]"
    by simp
  from t1 have t3: "map name (cards (get_num_gpus id [intel_control, untagged_render] (initial_data True))) =
     [''Intel i740 '' @ [CHR 0xE2, CHR 0x80, CHR 0x9C] @ ''Auburn''
        @ [CHR 0xE2, CHR 0x80, CHR 0x9D],
      ''Trident Vesa Local Bus 512KB'']"
    by (simp add: fake_intel_card_def fake_trident_card_def)
  from f r t1 t2 t3 show ?thesis by blast
qed

subsection \<open>C9: nothing is sent without a connection\<close>

text \<open>
  C9. In a state without a connection \<^verbatim>\<open>send_dbus_event\<close> emits no signal and
  returns the state as it was; so does \<^verbatim>\<open>name_acquired_handler\<close>, and a hotplug event
  emits nothing. \<^verbatim>\<open>send_dbus_event\<close> never writes the state, and whenever one of the
  three emits a signal the state has a connection.
\<close>

theorem send_dbus_event_no_connection:
  "(connection data = None \<longrightarrow>
      send_dbus_event data = (data, []) \<and>
      name_acquired_handler data = (data, []) \<and>
      snd (uevent_cb cl devices data) = []) \<and>
   fst (send_dbus_event data) = data \<and>
   (snd (send_dbus_event data) \<noteq> [] \<longrightarrow> connection data \<noteq> None) \<and>
   (snd (name_acquired_handler data) \<noteq> [] \<longrightarrow> connection data \<noteq> None) \<and>
   (snd (uevent_cb cl devices data) \<noteq> [] \<longrightarrow> connection data \<noteq> None)"
proof -
  have quiet: "send_dbus_event data = (data, [])" if "connection data = None"
    using that by (rule send_dbus_event_None)
  have name_acquired: "name_acquired_handler data = (data, [])" if "connection data = None"
    using that by (simp add: name_acquired_handler_def send_dbus_event_None)
  have hotplug: "snd (uevent_cb cl devices data) = []" if "connection data = None"
    using that by (rule uevent_cb_no_connection)
  show ?thesis
    using quiet name_acquired hotplug fst_send_dbus_event [of data]
    by (cases "connection data") simp_all
qed

theorem send_dbus_event_no_connection_witness:
  "connection (get_num_gpus id [intel_render] (initial_data False)) = None \<and>
   send_dbus_event (get_num_gpus id [intel_render] (initial_data False)) =
     (get_num_gpus id [intel_render] (initial_data False), []) \<and>
   snd (uevent_cb id [] (get_num_gpus id [intel_render] (initial_data False))) = [] \<and>
   snd (send_dbus_event
     (bus_acquired_handler 1 (get_num_gpus id [intel_render] (initial_data False)))) \<noteq> [] \<and>
   connection (bus_acquired_handler 1 (get_num_gpus id [intel_render] (initial_data False)))
     \<noteq> None"
proof -
  let ?s = "get_num_gpus id [intel_render] (initial_data False)"
  have n: "connection ?s = None"
    by (simp add: get_num_gpus_def initial_data_def Let_def)
  have e: "snd (send_dbus_event (bus_acquired_handler 1 ?s)) \<noteq> []"
    by (simp add: send_dbus_event_def bus_acquired_handler_def Let_def)
  from send_dbus_event_no_connection [of ?s id "[]"] n
  have t1: "send_dbus_event ?s = (?s, []) \<and> snd (uevent_cb id [] ?s) = []"
    by blast
  from send_dbus_event_no_connection [of "bus_acquired_handler 1 ?s" id "[]"] e
  have t2: "connection (bus_acquired_handler 1 ?s) \<noteq> None"
    by blast
  from n e t1 t2 show ?thesis by blast
qed

subsection \<open>C10: an empty override is an absent override\<close>

text \<open>
  C10. An override property (\<^verbatim>\<open>SWITCHEROO_CONTROL_VENDOR_NAME\<close>, respectively
  \<^verbatim>\<open>SWITCHEROO_CONTROL_PRODUCT_NAME\<close>) that is the empty string gives the same
  looked-up value as an absent one, the database property; so two devices that differ
  only in that one has the override empty and the other has none get the same name.
  The database property itself is taken as it is: when it is the empty string, the
  looked-up value is the empty string.
\<close>

theorem empty_override_is_absent:
  "(g_udev_device_get_property p ''SWITCHEROO_CONTROL_VENDOR_NAME'' = Some '''' \<or>
    g_udev_device_get_property p ''SWITCHEROO_CONTROL_VENDOR_NAME'' = None \<longrightarrow>
      get_card_name_vendor p = g_udev_device_get_property p ''ID_VENDOR_FROM_DATABASE'') \<and>
   (g_udev_device_get_property p ''SWITCHEROO_CONTROL_PRODUCT_NAME'' = Some '''' \<or>
    g_udev_device_get_property p ''SWITCHEROO_CONTROL_PRODUCT_NAME'' = None \<longrightarrow>
      get_card_name_product p = g_udev_device_get_property p ''ID_MODEL_FROM_DATABASE'') \<and>
   ((g_udev_device_get_property (g_udev_device_get_parent d) ''SWITCHEROO_CONTROL_VENDOR_NAME''
       = Some '''' \<and>
     g_udev_device_get_property (g_udev_device_get_parent d') ''SWITCHEROO_CONTROL_VENDOR_NAME''
       = None \<and>
     g_udev_device_get_property (g_udev_device_get_parent d) ''ID_VENDOR_FROM_DATABASE'' =
       g_udev_device_get_property (g_udev_device_get_parent d') ''ID_VENDOR_FROM_DATABASE'' \<and>
     get_card_name_product (g_udev_device_get_parent d) =
       get_card_name_product (g_udev_device_get_parent d')) \<longrightarrow>
      get_card_name cl d = get_card_name cl d') \<and>
   ((g_udev_device_get_property (g_udev_device_get_parent d) ''SWITCHEROO_CONTROL_PRODUCT_NAME''
       = Some '''' \<and>
     g_udev_device_get_property (g_udev_device_get_parent d') ''SWITCHEROO_CONTROL_PRODUCT_NAME''
       = None \<and>
     g_udev_device_get_property (g_udev_device_get_parent d) ''ID_MODEL_FROM_DATABASE'' =
       g_udev_device_get_property (g_udev_device_get_parent d') ''ID_MODEL_FROM_DATABASE'' \<and>
     get_card_name_vendor (g_udev_device_get_parent d) =
       get_card_name_vendor (g_udev_device_get_parent d')) \<longrightarrow>
      get_card_name cl d = get_card_name cl d') \<and>
   (g_udev_device_get_property p ''SWITCHEROO_CONTROL_VENDOR_NAME'' = None \<and>
    g_udev_device_get_property p ''ID_VENDOR_FROM_DATABASE'' = Some '''' \<longrightarrow>
      get_card_name_vendor p = Some '''') \<and>
   (g_udev_device_get_property p ''SWITCHEROO_CONTROL_PRODUCT_NAME'' = None \<and>
    g_udev_device_get_property p ''ID_MODEL_FROM_DATABASE'' = Some '''' \<longrightarrow>
      get_card_name_product p = Some '''')"
proof -
  have vendor: "get_card_name_vendor q = g_udev_device_get_property q ''ID_VENDOR_FROM_DATABASE''"
    if "g_udev_device_get_property q ''SWITCHEROO_CONTROL_VENDOR_NAME'' = Some '''' \<or>
        g_udev_device_get_property q ''SWITCHEROO_CONTROL_VENDOR_NAME'' = None" for q
    using that by (auto simp: get_card_name_vendor_override)
  have product: "get_card_name_product q = g_udev_device_get_property q ''ID_MODEL_FROM_DATABASE''"
    if "g_udev_device_get_property q ''SWITCHEROO_CONTROL_PRODUCT_NAME'' = Some '''' \<or>
        g_udev_device_get_property q ''SWITCHEROO_CONTROL_PRODUCT_NAME'' = None" for q
    using that by (auto simp: get_card_name_product_override)
  have name_eq: "get_card_name cl a = get_card_name cl b"
    if "get_card_name_vendor (g_udev_device_get_parent a) =
          get_card_name_vendor (g_udev_device_get_parent b)"
      and "get_card_name_product (g_udev_device_get_parent a) =
          get_card_name_product (g_udev_device_get_parent b)" for a b
    using that by (simp add: get_card_name_case)
  show ?thesis
    using vendor [of p] product [of p]
      vendor [of "g_udev_device_get_parent d"] vendor [of "g_udev_device_get_parent d'"]
      product [of "g_udev_device_get_parent d"] product [of "g_udev_device_get_parent d'"]
      name_eq [of d d']
    by simp
qed

theorem empty_override_is_absent_witness:
  "g_udev_device_get_property (g_udev_device_get_parent blank_override_render)
     ''SWITCHEROO_CONTROL_VENDOR_NAME'' = Some '''' \<and>
   g_udev_device_get_property (g_udev_device_get_parent blank_override_render)
     ''SWITCHEROO_CONTROL_PRODUCT_NAME'' = Some '''' \<and>
   g_udev_device_get_property (g_udev_device_get_parent intel_render)
     ''SWITCHEROO_CONTROL_VENDOR_NAME'' = None \<and>
   g_udev_device_get_property (g_udev_device_get_parent intel_render)
     ''SWITCHEROO_CONTROL_PRODUCT_NAME'' = None \<and>
   get_card_name_vendor (g_udev_device_get_parent blank_override_render) =
     Some ''Intel Corporation'' \<and>
   get_card_name_product (g_udev_device_get_parent blank_override_render) =
     Some ''UHD Graphics 620'' \<and>
   get_card_name id blank_override_render = get_card_name id intel_render \<and>
   get_card_name_vendor (g_udev_device_get_parent blank_database_render) = Some '''' \<and>
   get_card_name_product (g_udev_device_get_parent blank_database_render) = Some ''''"
proof -
  let ?p = "g_udev_device_get_parent blank_override_render"
  let ?q = "g_udev_device_get_parent intel_render"
  let ?r = "g_udev_device_get_parent blank_database_render"
  have ov: "g_udev_device_get_property ?p ''SWITCHEROO_CONTROL_VENDOR_NAME'' = Some ''''"
    "g_udev_device_get_property ?p ''SWITCHEROO_CONTROL_PRODUCT_NAME'' = Some ''''"
    "g_udev_device_get_property ?q ''SWITCHEROO_CONTROL_VENDOR_NAME'' = None"
    "g_udev_device_get_property ?q ''SWITCHEROO_CONTROL_PRODUCT_NAME'' = None"
    "g_udev_device_get_property ?r ''SWITCHEROO_CONTROL_VENDOR_NAME'' = None"
    "g_udev_device_get_property ?r ''SWITCHEROO_CONTROL_PRODUCT_NAME'' = None"
    by (simp_all add: model_defs example_defs)
  have db: "g_udev_device_get_property ?p ''ID_VENDOR_FROM_DATABASE'' = Some ''Intel Corporation''"
    "g_udev_device_get_property ?p ''ID_MODEL_FROM_DATABASE'' = Some ''UHD Graphics 620''"
    "g_udev_device_get_property ?q ''ID_VENDOR_FROM_DATABASE'' = Some ''Intel Corporation''"
    "g_udev_device_get_property ?q ''ID_MODEL_FROM_DATABASE'' = Some ''UHD Graphics 620''"
    "g_udev_device_get_property ?r ''ID_VENDOR_FROM_DATABASE'' = Some ''''"
    "g_udev_device_get_property ?r ''ID_MODEL_FROM_DATABASE'' = Some ''''"
    by (simp_all add: model_defs example_defs)
  from empty_override_is_absent [of ?p blank_override_render blank_override_render id] ov db
  have t1: "get_card_name_vendor ?p = Some ''Intel Corporation'' \<and>
            get_card_name_product ?p = Some ''UHD Graphics 620''"
    by simp
  from empty_override_is_absent [of ?q intel_render intel_render id] ov db
  have t2: "get_card_name_vendor ?q = Some ''Intel Corporation'' \<and>
            get_card_name_product ?q = Some ''UHD Graphics 620''"
    by simp
  from empty_override_is_absent [of ?p blank_override_render intel_render id] ov db t1 t2
  have t3: "get_card_name id blank_override_render = get_card_name id intel_render"
    by simp
  from empty_override_is_absent [of ?r blank_database_render blank_database_render id] ov db
  have t4: "get_card_name_vendor ?r = Some '''' \<and> get_card_name_product ?r = Some ''''"
    by simp
  from ov t1 t3 t4 show ?thesis by blast
qed

end
